theory Spec2Isabelle
  imports Complex_Main
begin

section \<open>Common conventions\<close>

text \<open>
  The two notebooks are \<^verbatim>\<open>src/pendulum/ddpg_pendulum.ipynb\<close> (the continuous DDPG agent)
  and \<^verbatim>\<open>src/Breakout/Untitled.ipynb\<close> (the discrete DQN agent).

  Python exceptions are values of \<open>error\<close>; a function that can raise returns
  \<open>error + 'a\<close> with \<open>Inl\<close> for the exception. NumPy arrays of floats are lists of
  reals (\<open>vec\<close> for one row): the arithmetic of the model is exact real arithmetic, so
  rounding, infinities and NaN are outside the model. Random draws (\<open>np.random.normal\<close>,
  \<open>np.random.choice\<close>, \<open>random.sample\<close>, \<open>random.uniform\<close>, \<open>np.random.randint\<close>) are
  explicit arguments; a predicate says which draws the library can produce.
\<close>

datatype error = ZeroDivisionError | IndexError | ValueError

type_synonym vec = "real list"

section \<open>Continuous variant: the replay buffer (class Buffer)\<close>

text \<open>
  An observation tuple is \<open>(prev_state, action, reward, state)\<close>; the reward is a scalar
  that NumPy stores as the one-element row of \<open>reward_buffer\<close>. Rows are assumed to have
  the shape of the buffer's rows, as in the notebook.
\<close>

type_synonym obs_tuple = "vec \<times> vec \<times> real \<times> vec"

record Buffer =
  buffer_capacity :: nat
  batch_size :: nat
  buffer_counter :: nat
  state_buffer :: "vec list"
  action_buffer :: "vec list"
  reward_buffer :: "vec list"
  next_state_buffer :: "vec list"

text \<open>
  \<open>Buffer.__init__\<close>. The globals \<open>num_states\<close> and \<open>num_actions\<close> are parameters. A
  negative capacity makes \<open>np.zeros\<close> raise, so no buffer with one exists: capacities
  are naturals.
\<close>

definition Buffer_init :: "nat \<Rightarrow> nat \<Rightarrow> nat \<Rightarrow> nat \<Rightarrow> Buffer" where
  "Buffer_init num_states num_actions capacity bsize =
     \<lparr> buffer_capacity = capacity,
       batch_size = bsize,
       buffer_counter = 0,
       state_buffer = replicate capacity (replicate num_states 0),
       action_buffer = replicate capacity (replicate num_actions 0),
       reward_buffer = replicate capacity (replicate 1 0),
       next_state_buffer = replicate capacity (replicate num_states 0) \<rparr>"

text \<open>
  \<open>Buffer.record\<close>: \<open>index = self.buffer_counter % self.buffer_capacity\<close> raises
  ZeroDivisionError for capacity 0; a write past the end of an array raises IndexError.
\<close>

definition Buffer_record :: "Buffer \<Rightarrow> obs_tuple \<Rightarrow> error + Buffer" where
  "Buffer_record b obs_tuple =
     (case obs_tuple of (s, a, r, s') \<Rightarrow>
        if buffer_capacity b = 0 then Inl ZeroDivisionError
        else
          let index = buffer_counter b mod buffer_capacity b in
          if index < length (state_buffer b) \<and> index < length (action_buffer b)
             \<and> index < length (reward_buffer b) \<and> index < length (next_state_buffer b)
          then Inr (b\<lparr> state_buffer := (state_buffer b)[index := s],
                       action_buffer := (action_buffer b)[index := a],
                       reward_buffer := (reward_buffer b)[index := [r]],
                       next_state_buffer := (next_state_buffer b)[index := s'],
                       buffer_counter := buffer_counter b + 1 \<rparr>)
          else Inl IndexError)"


text \<open>The sampling range that \<open>Buffer.learn\<close> computes: the number of valid entries.\<close>

definition record_range :: "Buffer \<Rightarrow> nat" where
  "record_range b = min (buffer_counter b) (buffer_capacity b)"



section \<open>Continuous variant: NumPy arithmetic on rows\<close>

text \<open>
  Element-wise arithmetic on arrays of one shape (in the notebook every noise array has
  the shape of \<open>mean\<close> and every weight array of the target network has the shape
  of the live network's); broadcasting between different shapes is not modelled.
\<close>

definition vadd :: "vec \<Rightarrow> vec \<Rightarrow> vec" where
  "vadd xs ys = map2 (+) xs ys"

definition vsub :: "vec \<Rightarrow> vec \<Rightarrow> vec" where
  "vsub xs ys = map2 (-) xs ys"

definition vmul :: "vec \<Rightarrow> vec \<Rightarrow> vec" where
  "vmul xs ys = map2 (*) xs ys"

text \<open>\<open>c * xs\<close> and \<open>xs * c\<close> for a scalar \<open>c\<close>.\<close>

definition smul :: "real \<Rightarrow> vec \<Rightarrow> vec" where
  "smul c xs = map (\<lambda>x. c * x) xs"

definition vscale :: "vec \<Rightarrow> real \<Rightarrow> vec" where
  "vscale xs c = map (\<lambda>x. x * c) xs"

definition zeros_like :: "vec \<Rightarrow> vec" where
  "zeros_like xs = replicate (length xs) 0"

text \<open>\<open>np.mean\<close> of a one-dimensional array.\<close>

definition np_mean :: "real list \<Rightarrow> real" where
  "np_mean xs = sum_list xs / real (length xs)"

text \<open>\<open>np.clip(a, a_min, a_max)\<close> is \<open>minimum(a_max, maximum(a, a_min))\<close>.\<close>

definition np_clip :: "real \<Rightarrow> real \<Rightarrow> real \<Rightarrow> real" where
  "np_clip a a_min a_max = min a_max (max a a_min)"

section \<open>Continuous variant: the exploration noise (class OUActionNoise)\<close>

record OUActionNoise =
  theta :: real
  mean :: vec
  std_dev :: vec
  dt :: real
  x_initial :: "vec option"
  x_prev :: vec

definition OUActionNoise_reset :: "OUActionNoise \<Rightarrow> OUActionNoise" where
  "OUActionNoise_reset self =
     (case x_initial self of
        Some x0 \<Rightarrow> self\<lparr> x_prev := x0 \<rparr>
      | None \<Rightarrow> self\<lparr> x_prev := zeros_like (mean self) \<rparr>)"

text \<open>
  \<open>OUActionNoise.__init__(mean, std_deviation, theta, dt, x_initial)\<close> ends with
  \<open>self.reset()\<close>, which gives \<open>x_prev\<close> its first value.
\<close>

definition OUActionNoise_init ::
  "vec \<Rightarrow> vec \<Rightarrow> real \<Rightarrow> real \<Rightarrow> vec option \<Rightarrow> OUActionNoise" where
  "OUActionNoise_init mean0 std_deviation theta0 dt0 x_initial0 =
     OUActionNoise_reset
       \<lparr> theta = theta0, mean = mean0, std_dev = std_deviation, dt = dt0,
         x_initial = x_initial0, x_prev = [] \<rparr>"

text \<open>
  \<open>OUActionNoise.__call__\<close>; \<open>normal\<close> is the value of
  \<open>np.random.normal(size=self.mean.shape)\<close>. The result is the sample and the object
  with its new \<open>x_prev\<close>.
\<close>

definition OUActionNoise_call :: "OUActionNoise \<Rightarrow> vec \<Rightarrow> vec \<times> OUActionNoise" where
  "OUActionNoise_call self normal =
     (let x = vadd (vadd (x_prev self)
                (vscale (smul (theta self) (vsub (mean self) (x_prev self))) (dt self)))
                (vmul (vscale (std_dev self) (sqrt (dt self))) normal)
      in (x, self\<lparr> x_prev := x \<rparr>))"

section \<open>Continuous variant: networks, learning step and target update\<close>

text \<open>
  The weights of a Keras model are a list of arrays (\<open>get_weights\<close>). What lies outside
  the notebook is a record of opaque functions: the forward pass of the actor (one state
  row to the scalar action of its \<open>Dense(1)\<close> output) and of the critic (a state row and
  an action row to the scalar value), applied row by row to a batch; one gradient step
  (\<open>tape.gradient\<close> followed by \<open>apply_gradients\<close>) on a loss given as a function of
  the trained weights; and the environment's \<open>reset\<close> and \<open>step\<close>.
\<close>

type_synonym weights = "vec list"

record ('e, 'o) externals =
  actor_net :: "weights \<Rightarrow> vec \<Rightarrow> real"
  critic_net :: "weights \<Rightarrow> vec \<Rightarrow> vec \<Rightarrow> real"
  apply_gradients :: "'o \<Rightarrow> (weights \<Rightarrow> real) \<Rightarrow> weights \<Rightarrow> 'o \<times> weights"
  env_reset :: "'e \<Rightarrow> vec \<times> 'e"
  env_step :: "'e \<Rightarrow> vec \<Rightarrow> (vec \<times> real \<times> bool \<times> bool) \<times> 'e"

record 'o networks =
  actor_model :: weights
  critic_model :: weights
  target_actor :: weights
  target_critic :: weights
  critic_optimizer :: 'o
  actor_optimizer :: 'o

text \<open>
  The bootstrap target of \<open>Buffer.update\<close>:
  \<^verbatim>\<open>target_actions = target_actor(next_state_batch)\<close>,
  \<^verbatim>\<open>y = reward_batch + gamma * target_critic([next_state_batch, target_actions])\<close>.
  Rows of \<open>reward_batch\<close> and of \<open>y\<close> have one element. The cast of \<open>reward_batch\<close>
  to \<open>float32\<close> in \<open>learn\<close> is the identity on real numbers.
\<close>

definition target_actions_of ::
  "('e, 'o) externals \<Rightarrow> 'o networks \<Rightarrow> vec list \<Rightarrow> vec list" where
  "target_actions_of X nets next_state_batch =
     map (\<lambda>s. [actor_net X (target_actor nets) s]) next_state_batch"

definition update_y ::
  "('e, 'o) externals \<Rightarrow> real \<Rightarrow> 'o networks \<Rightarrow> vec list \<Rightarrow> vec list \<Rightarrow> vec list" where
  "update_y X gamma nets reward_batch next_state_batch =
     (let target_actions = target_actions_of X nets next_state_batch
      in map2 (\<lambda>r q. vadd r [gamma * q]) reward_batch
           (map2 (critic_net X (target_critic nets)) next_state_batch target_actions))"

text \<open>
  \<open>Buffer.update\<close>: the critic step on the mean squared error between \<open>y\<close> and the
  critic's value, then the actor step on the negated mean value under the critic just
  updated.
\<close>

definition Buffer_update ::
  "('e, 'o) externals \<Rightarrow> real \<Rightarrow> 'o networks \<Rightarrow> vec list \<Rightarrow> vec list \<Rightarrow> vec list \<Rightarrow> vec list
     \<Rightarrow> 'o networks" where
  "Buffer_update X gamma nets state_batch action_batch reward_batch next_state_batch =
     (let y = update_y X gamma nets reward_batch next_state_batch;
          critic_loss = (\<lambda>w. np_mean (concat (map2 (\<lambda>yi q. map (\<lambda>d. d\<^sup>2) (vsub yi [q])) y
                                  (map2 (critic_net X w) state_batch action_batch))));
          (copt, cw) = apply_gradients X (critic_optimizer nets) critic_loss (critic_model nets);
          actor_loss = (\<lambda>w. - np_mean (map (\<lambda>s. critic_net X cw s [actor_net X w s]) state_batch));
          (aopt, aw) = apply_gradients X (actor_optimizer nets) actor_loss (actor_model nets)
      in nets\<lparr> critic_model := cw, critic_optimizer := copt,
               actor_model := aw, actor_optimizer := aopt \<rparr>)"

text \<open>
  \<open>np.random.choice(a, n)\<close> for an integer \<open>a\<close> and a size \<open>n\<close>: it raises ValueError
  when \<open>a = 0\<close> and a sample is asked for (\<open>n > 0\<close>); otherwise it returns \<open>n\<close> indices,
  each below \<open>a\<close>, drawn with replacement. The drawn indices are the argument \<open>draw\<close>;
  \<open>choice_draw\<close> says which draws are possible.
\<close>

definition np_random_choice :: "nat \<Rightarrow> nat \<Rightarrow> nat list \<Rightarrow> error + nat list" where
  "np_random_choice a n draw = (if a = 0 \<and> n \<noteq> 0 then Inl ValueError else Inr draw)"


text \<open>Indexing an array with an array of indices; an index past the end raises IndexError.\<close>

definition take_rows :: "vec list \<Rightarrow> nat list \<Rightarrow> error + vec list" where
  "take_rows buf idx =
     (if \<forall>i\<in>set idx. i < length buf then Inr (map (\<lambda>i. buf ! i) idx) else Inl IndexError)"

record batch =
  state_batch :: "vec list"
  action_batch :: "vec list"
  reward_batch :: "vec list"
  next_state_batch :: "vec list"

text \<open>The sampling half of \<open>Buffer.learn\<close>: the four batches handed to \<open>update\<close>.\<close>

definition learn_batch :: "Buffer \<Rightarrow> nat list \<Rightarrow> error + batch" where
  "learn_batch self draw =
     (let record_range = min (buffer_counter self) (buffer_capacity self) in
      case np_random_choice record_range (batch_size self) draw of
        Inl e \<Rightarrow> Inl e
      | Inr batch_indices \<Rightarrow>
          (case take_rows (state_buffer self) batch_indices of
             Inl e \<Rightarrow> Inl e
           | Inr sb \<Rightarrow>
          (case take_rows (action_buffer self) batch_indices of
             Inl e \<Rightarrow> Inl e
           | Inr ab \<Rightarrow>
          (case take_rows (reward_buffer self) batch_indices of
             Inl e \<Rightarrow> Inl e
           | Inr rb \<Rightarrow>
          (case take_rows (next_state_buffer self) batch_indices of
             Inl e \<Rightarrow> Inl e
           | Inr nb \<Rightarrow>
               Inr \<lparr> state_batch = sb, action_batch = ab, reward_batch = rb,
                     next_state_batch = nb \<rparr>)))))"

definition Buffer_learn ::
  "('e, 'o) externals \<Rightarrow> real \<Rightarrow> Buffer \<Rightarrow> 'o networks \<Rightarrow> nat list \<Rightarrow> error + 'o networks" where
  "Buffer_learn X gamma self nets draw =
     (case learn_batch self draw of
        Inl e \<Rightarrow> Inl e
      | Inr b \<Rightarrow>
          Inr (Buffer_update X gamma nets (state_batch b) (action_batch b) (reward_batch b)
                 (next_state_batch b)))"

text \<open>
  \<open>update_target(target, original, tau)\<close>: the loop over
  \<open>range(len(target_weights))\<close>. \<open>original_weights[i]\<close> raises IndexError when the live
  network has fewer arrays; arrays of different shapes raise ValueError.
\<close>

definition update_target_step :: "weights \<Rightarrow> real \<Rightarrow> nat \<Rightarrow> error + weights \<Rightarrow> error + weights" where
  "update_target_step original_weights tau i acc =
     (case acc of
        Inl e \<Rightarrow> Inl e
      | Inr target_weights \<Rightarrow>
          if length original_weights \<le> i then Inl IndexError
          else if length (original_weights ! i) \<noteq> length (target_weights ! i) then Inl ValueError
          else Inr (target_weights
                 [i := vadd (vscale (original_weights ! i) tau)
                            (vscale (target_weights ! i) (1 - tau))]))"

definition update_target :: "weights \<Rightarrow> weights \<Rightarrow> real \<Rightarrow> error + weights" where
  "update_target target original tau =
     fold (update_target_step original tau) [0..<length target] (Inr target)"




section \<open>Continuous variant: policy and training loop\<close>

text \<open>
  \<open>policy(state, noise_object)\<close>: the actor's output for the state (a batch of one,
  squeezed to a scalar), plus the noise sample, clipped to the action bounds. The
  globals \<open>lower_bound\<close>, \<open>upper_bound\<close> and \<open>actor_model\<close> are parameters. The value is
  the array \<open>legal_action\<close> (for the pendulum a single number, returned inside a list)
  and the noise object after the call.
\<close>

definition policy ::
  "('e, 'o) externals \<Rightarrow> real \<Rightarrow> real \<Rightarrow> weights \<Rightarrow> vec \<Rightarrow> OUActionNoise \<Rightarrow> vec
     \<Rightarrow> vec \<times> OUActionNoise" where
  "policy X lower_bound upper_bound actor state noise_object normal =
     (let sampled_actions = actor_net X actor state;
          (noise, noise_object') = OUActionNoise_call noise_object normal;
          sampled_actions' = map (\<lambda>n. sampled_actions + n) noise;
          legal_action = map (\<lambda>a. np_clip a lower_bound upper_bound) sampled_actions'
      in (legal_action, noise_object'))"

text \<open>The state of the training cell, and the random draws of one time step.\<close>

record ('e, 'o) ddpg =
  env :: 'e
  ou_noise :: OUActionNoise
  buffer :: Buffer
  nets :: "'o networks"
  prev_state :: vec
  episodic_reward :: real
  ep_reward_list :: "real list"
  avg_reward_list :: "real list"

record step_draw =
  normal_draw :: vec
  choice_indices :: "nat list"

text \<open>
  One pass through the body of \<open>while True\<close>. The flag of the result says whether the
  pass ended in \<open>break\<close>.
\<close>

definition train_step ::
  "('e, 'o) externals \<Rightarrow> real \<Rightarrow> real \<Rightarrow> real \<Rightarrow> real \<Rightarrow> step_draw \<Rightarrow> ('e, 'o) ddpg
     \<Rightarrow> error + (('e, 'o) ddpg \<times> bool)" where
  "train_step X lower_bound upper_bound gamma tau d st =
     (let (action, noise') =
            policy X lower_bound upper_bound (actor_model (nets st)) (prev_state st)
              (ou_noise st) (normal_draw d);
          ((state, reward, done, truncated), env') = env_step X (env st) action
      in case Buffer_record (buffer st) (prev_state st, action, reward, state) of
           Inl e \<Rightarrow> Inl e
         | Inr buffer' \<Rightarrow>
        (case Buffer_learn X gamma buffer' (nets st) (choice_indices d) of
           Inl e \<Rightarrow> Inl e
         | Inr nets1 \<Rightarrow>
        (case update_target (target_actor nets1) (actor_model nets1) tau of
           Inl e \<Rightarrow> Inl e
         | Inr ta \<Rightarrow>
        (case update_target (target_critic nets1) (critic_model nets1) tau of
           Inl e \<Rightarrow> Inl e
         | Inr tc \<Rightarrow>
             (let st' = st\<lparr> env := env', ou_noise := noise', buffer := buffer',
                            nets := nets1\<lparr> target_actor := ta, target_critic := tc \<rparr>,
                            episodic_reward := episodic_reward st + reward \<rparr>
              in if done \<or> truncated then Inr (st', True)
                 else Inr (st'\<lparr> prev_state := state \<rparr>, False))))))"

text \<open>
  The loop \<open>while True\<close> of one episode. It may run forever; the list of draws is the
  fuel, one element per pass: \<open>None\<close> means the draws ran out before the environment
  ended the episode. The draws not used are returned for the next episode.
\<close>

fun episode_loop ::
  "('e, 'o) externals \<Rightarrow> real \<Rightarrow> real \<Rightarrow> real \<Rightarrow> real \<Rightarrow> step_draw list \<Rightarrow> ('e, 'o) ddpg
     \<Rightarrow> (error + (('e, 'o) ddpg \<times> step_draw list)) option" where
  "episode_loop X lower_bound upper_bound gamma tau [] st = None"
| "episode_loop X lower_bound upper_bound gamma tau (d # ds) st =
     (case train_step X lower_bound upper_bound gamma tau d st of
        Inl e \<Rightarrow> Some (Inl e)
      | Inr (st', stop) \<Rightarrow>
          if stop then Some (Inr (st', ds))
          else episode_loop X lower_bound upper_bound gamma tau ds st')"

text \<open>
  The statements of the \<open>for ep\<close> body before the inner loop
  (\<^verbatim>\<open>prev_state, _ = env.reset()\<close>, \<^verbatim>\<open>episodic_reward = 0\<close>) and after it (the reward
  bookkeeping; \<open>ep_reward_list[-40:]\<close> is the last 40 entries).
\<close>

definition episode_reset :: "('e, 'o) externals \<Rightarrow> ('e, 'o) ddpg \<Rightarrow> ('e, 'o) ddpg" where
  "episode_reset X st =
     (let (s0, env') = env_reset X (env st)
      in st\<lparr> env := env', prev_state := s0, episodic_reward := 0 \<rparr>)"

definition episode_end :: "('e, 'o) ddpg \<Rightarrow> ('e, 'o) ddpg" where
  "episode_end st =
     (let l = ep_reward_list st @ [episodic_reward st];
          avg_reward = np_mean (drop (length l - 40) l)
      in st\<lparr> ep_reward_list := l, avg_reward_list := avg_reward_list st @ [avg_reward] \<rparr>)"

text \<open>\<open>for ep in range(total_episodes)\<close>.\<close>

fun train ::
  "('e, 'o) externals \<Rightarrow> real \<Rightarrow> real \<Rightarrow> real \<Rightarrow> real \<Rightarrow> nat \<Rightarrow> step_draw list \<Rightarrow> ('e, 'o) ddpg
     \<Rightarrow> (error + (('e, 'o) ddpg \<times> step_draw list)) option" where
  "train X lower_bound upper_bound gamma tau 0 ds st = Some (Inr (st, ds))"
| "train X lower_bound upper_bound gamma tau (Suc total_episodes) ds st =
     (case episode_loop X lower_bound upper_bound gamma tau ds (episode_reset X st) of
        None \<Rightarrow> None
      | Some (Inl e) \<Rightarrow> Some (Inl e)
      | Some (Inr (st', ds')) \<Rightarrow>
          train X lower_bound upper_bound gamma tau total_episodes ds' (episode_end st'))"

text \<open>
  The training cell's state when the loop starts: the noise object of
  \<^verbatim>\<open>OUActionNoise(mean=np.zeros(1), std_deviation=float(std_dev) * np.ones(1))\<close> with
  \<open>std_dev = 0.2\<close> and the defaults \<open>theta=0.15\<close>, \<open>dt=1e-2\<close>, \<open>x_initial=None\<close>; the
  buffer \<open>Buffer(50000, 64)\<close>; target networks that start as copies of the live ones.
  \<open>prev_state\<close> and \<open>episodic_reward\<close> are not yet bound in the notebook; they are
  assigned before their first use.
\<close>

definition ou_noise_init :: OUActionNoise where
  "ou_noise_init = OUActionNoise_init (replicate 1 0) (smul (2 / 10) (replicate 1 1)) (15 / 100) (1 / 100) None"

definition ddpg_init ::
  "nat \<Rightarrow> nat \<Rightarrow> 'e \<Rightarrow> weights \<Rightarrow> weights \<Rightarrow> 'o \<Rightarrow> 'o \<Rightarrow> ('e, 'o) ddpg" where
  "ddpg_init num_states num_actions env0 actor0 critic0 copt0 aopt0 =
     \<lparr> env = env0,
       ou_noise = ou_noise_init,
       buffer = Buffer_init num_states num_actions 50000 64,
       nets = \<lparr> actor_model = actor0, critic_model = critic0,
                target_actor = actor0, target_critic = critic0,
                critic_optimizer = copt0, actor_optimizer = aopt0 \<rparr>,
       prev_state = [],
       episodic_reward = 0,
       ep_reward_list = [],
       avg_reward_list = [] \<rparr>"

section \<open>Discrete variant: the bounded deque and the agent (class DQN)\<close>

text \<open>
  \<open>collections.deque(maxlen=n)\<close>: \<open>append\<close> adds on the right and, when the deque is
  then longer than \<open>maxlen\<close>, drops the leftmost item.
\<close>

record 'a deque =
  items :: "'a list"
  maxlen :: nat

definition deque_init :: "nat \<Rightarrow> 'a deque" where
  "deque_init n = \<lparr> items = [], maxlen = n \<rparr>"

definition deque_append :: "'a deque \<Rightarrow> 'a \<Rightarrow> 'a deque" where
  "deque_append d x =
     (let xs = items d @ [x]
      in d\<lparr> items := (if maxlen d < length xs then tl xs else xs) \<rparr>)"

text \<open>
  A stored transition is \<open>(state, action, reward, next_state, done)\<close>; the state type
  \<open>'s\<close> (a preprocessed frame) and the network weights \<open>'w\<close> are opaque.
\<close>

type_synonym 's transition = "'s \<times> nat \<times> real \<times> 's \<times> bool"

record ('s, 'w) DQN =
  state_size :: "nat \<times> nat \<times> nat"
  action_size :: nat
  replay_buffer :: "'s transition deque"
  gamma :: real
  epsilon :: real
  update_rate :: nat
  main_network :: 'w
  target_network :: 'w

text \<open>
  \<open>DQN.__init__\<close>: \<open>w\<close> is what the first \<open>build_network()\<close> returns; the weights of the
  second network are overwritten with it by \<open>set_weights\<close>.
\<close>

definition DQN_init :: "nat \<times> nat \<times> nat \<Rightarrow> nat \<Rightarrow> 'w \<Rightarrow> ('s, 'w) DQN" where
  "DQN_init ssize asize w =
     \<lparr> state_size = ssize,
       action_size = asize,
       replay_buffer = deque_init 5000,
       gamma = 9 / 10,
       epsilon = 8 / 10,
       update_rate = 1000,
       main_network = w,
       target_network = w \<rparr>"

definition store_transistion ::
  "('s, 'w) DQN \<Rightarrow> 's \<Rightarrow> nat \<Rightarrow> real \<Rightarrow> 's \<Rightarrow> bool \<Rightarrow> ('s, 'w) DQN" where
  "store_transistion dqn state action reward next_state done =
     dqn\<lparr> replay_buffer := deque_append (replay_buffer dqn) (state, action, reward, next_state, done) \<rparr>"

fun store_all :: "('s, 'w) DQN \<Rightarrow> 's transition list \<Rightarrow> ('s, 'w) DQN" where
  "store_all dqn [] = dqn"
| "store_all dqn ((s, a, r, s', d) # ts) = store_all (store_transistion dqn s a r s' d) ts"

text \<open>
  What lies outside the notebook's control logic: the network's \<open>predict\<close> (the one
  row of Q-values for a state) and \<open>fit\<close> (one training call on a state and a target
  row), the image preprocessing, and the game's \<open>reset\<close>, \<open>step\<close> and \<open>render\<close>.
\<close>

record ('g, 'f, 's, 'w) game_externals =
  predict :: "'w \<Rightarrow> 's \<Rightarrow> real list"
  fit :: "'w \<Rightarrow> 's \<Rightarrow> real list \<Rightarrow> 'w"
  preprocess_state :: "'f \<Rightarrow> 's"
  game_reset :: "'g \<Rightarrow> 'f \<times> 'g"
  game_step :: "'g \<Rightarrow> nat \<Rightarrow> ('f \<times> real \<times> bool) \<times> 'g"
  game_render :: "'g \<Rightarrow> 'g"

text \<open>\<open>np.argmax\<close>: the first index of the maximum.\<close>

definition np_argmax :: "real list \<Rightarrow> nat" where
  "np_argmax xs = length (takeWhile (\<lambda>x. x \<noteq> Max (set xs)) xs)"

text \<open>
  \<open>DQN.epsilon_greedy\<close>; \<open>uniform\<close> is the value of \<open>random.uniform(0,1)\<close> and
  \<open>randint\<close> that of \<open>np.random.randint(self.action_size)\<close>, which raises ValueError
  when there is no action; so does \<open>np.argmax\<close> of an empty row.
\<close>

definition epsilon_greedy ::
  "('g, 'f, 's, 'w) game_externals \<Rightarrow> ('s, 'w) DQN \<Rightarrow> 's \<Rightarrow> real \<Rightarrow> nat \<Rightarrow> error + nat" where
  "epsilon_greedy Y self state uniform randint =
     (if uniform < epsilon self
      then (if action_size self = 0 then Inl ValueError else Inr randint)
      else
        let Q_values = predict Y (main_network self) state
        in if Q_values = [] then Inl ValueError else Inr (np_argmax Q_values))"

text \<open>
  \<open>random.sample(population, k)\<close>: ValueError when \<open>k\<close> exceeds the population;
  otherwise the items at \<open>k\<close> distinct positions (sampling without replacement). The
  positions are the argument \<open>pos\<close>; \<open>sample_draw\<close> says which draws are possible.
\<close>

definition random_sample :: "'a list \<Rightarrow> nat \<Rightarrow> nat list \<Rightarrow> error + 'a list" where
  "random_sample population k pos =
     (if length population < k then Inl ValueError else Inr (map (\<lambda>p. population ! p) pos))"


text \<open>
  The body of the loop of \<open>DQN.train\<close> for one transition of the minibatch: the
  bootstrap target \<open>target_Q\<close>, then the fit of the main network on its own prediction
  with the taken action's entry overwritten. \<open>np.amax\<close> of an empty row raises
  ValueError, an action past the row IndexError.
\<close>

definition target_Q ::
  "('g, 'f, 's, 'w) game_externals \<Rightarrow> ('s, 'w) DQN \<Rightarrow> real \<Rightarrow> 's \<Rightarrow> bool \<Rightarrow> error + real" where
  "target_Q Y self reward next_state done =
     (if \<not> done
      then (let q = predict Y (target_network self) next_state
            in if q = [] then Inl ValueError else Inr (reward + gamma self * Max (set q)))
      else Inr reward)"

definition fit_target ::
  "('g, 'f, 's, 'w) game_externals \<Rightarrow> ('s, 'w) DQN \<Rightarrow> 's transition \<Rightarrow> error + real list" where
  "fit_target Y self t =
     (case t of (state, action, reward, next_state, done) \<Rightarrow>
        (case target_Q Y self reward next_state done of
           Inl e \<Rightarrow> Inl e
         | Inr tq \<Rightarrow>
             let Q_values = predict Y (main_network self) state
             in if action < length Q_values then Inr (Q_values[action := tq])
                else Inl IndexError))"

definition train_sample ::
  "('g, 'f, 's, 'w) game_externals \<Rightarrow> ('s, 'w) DQN \<Rightarrow> 's transition \<Rightarrow> error + ('s, 'w) DQN" where
  "train_sample Y self t =
     (case fit_target Y self t of
        Inl e \<Rightarrow> Inl e
      | Inr Q_values \<Rightarrow>
          Inr (self\<lparr> main_network := fit Y (main_network self) (fst t) Q_values \<rparr>))"

fun train_loop ::
  "('g, 'f, 's, 'w) game_externals \<Rightarrow> ('s, 'w) DQN \<Rightarrow> 's transition list \<Rightarrow> error + ('s, 'w) DQN" where
  "train_loop Y self [] = Inr self"
| "train_loop Y self (t # minibatch) =
     (case train_sample Y self t of
        Inl e \<Rightarrow> Inl e
      | Inr self' \<Rightarrow> train_loop Y self' minibatch)"

definition DQN_minibatch :: "('s, 'w) DQN \<Rightarrow> nat \<Rightarrow> nat list \<Rightarrow> error + 's transition list" where
  "DQN_minibatch self batch_size' pos = random_sample (items (replay_buffer self)) batch_size' pos"

definition DQN_train ::
  "('g, 'f, 's, 'w) game_externals \<Rightarrow> ('s, 'w) DQN \<Rightarrow> nat \<Rightarrow> nat list \<Rightarrow> error + ('s, 'w) DQN" where
  "DQN_train Y self batch_size' pos =
     (case DQN_minibatch self batch_size' pos of
        Inl e \<Rightarrow> Inl e
      | Inr minibatch \<Rightarrow> train_loop Y self minibatch)"

definition update_target_network :: "('s, 'w) DQN \<Rightarrow> ('s, 'w) DQN" where
  "update_target_network self = self\<lparr> target_network := main_network self \<rparr>"

section \<open>Discrete variant: the training loop\<close>

text \<open>
  The variables of the training cell. \<open>stdout\<close> collects what the cell prints (episode
  number and return). The random draws of a time step are looked up by the value of
  \<open>time_step\<close>, which the loop increments at every pass.
\<close>

record ('g, 's, 'w) trainer =
  game :: 'g
  dqn :: "('s, 'w) DQN"
  done_flag :: bool
  time_step :: nat
  episode_rewards :: "real list"
  Return :: real
  cur_state :: 's
  stdout :: "(nat \<times> real) list"

record game_draw =
  uniform_draw :: real
  randint_draw :: nat
  sample_positions :: "nat list"

text \<open>
  Statements of a loop body either fall through to the next statement or leave the loop
  (\<open>break\<close>); after a \<open>break\<close> the rest of a sequence is skipped.
\<close>

datatype flow = Next | Break

definition seq_stmt :: "('a \<Rightarrow> 'a \<times> flow) \<Rightarrow> ('a \<Rightarrow> 'a \<times> flow) \<Rightarrow> 'a \<Rightarrow> 'a \<times> flow" where
  "seq_stmt p q s = (case p s of (s', Break) \<Rightarrow> (s', Break) | (s', Next) \<Rightarrow> q s')"

text \<open>
  The block under \<open>if done:\<close>, in the order of the notebook:
  \<^verbatim>\<open>print('Episode: ',i, ',' 'Return', Return)\<close>, \<^verbatim>\<open>break\<close>,
  \<^verbatim>\<open>episode_rewards.append(Return)\<close>.
\<close>

definition print_stmt :: "nat \<Rightarrow> ('g, 's, 'w) trainer \<Rightarrow> ('g, 's, 'w) trainer \<times> flow" where
  "print_stmt i run = (run\<lparr> stdout := stdout run @ [(i, Return run)] \<rparr>, Next)"

definition break_stmt :: "('g, 's, 'w) trainer \<Rightarrow> ('g, 's, 'w) trainer \<times> flow" where
  "break_stmt run = (run, Break)"

definition append_stmt :: "('g, 's, 'w) trainer \<Rightarrow> ('g, 's, 'w) trainer \<times> flow" where
  "append_stmt run = (run\<lparr> episode_rewards := episode_rewards run @ [Return run] \<rparr>, Next)"

definition done_block :: "nat \<Rightarrow> ('g, 's, 'w) trainer \<Rightarrow> ('g, 's, 'w) trainer \<times> flow" where
  "done_block i = seq_stmt (print_stmt i) (seq_stmt break_stmt append_stmt)"

text \<open>
  One pass through the body of \<open>for t in range(num_timesteps)\<close>.
  \<open>time_step % dqn.update_rate\<close> raises ZeroDivisionError for an update rate of 0.
\<close>

definition timestep ::
  "('g, 'f, 's, 'w) game_externals \<Rightarrow> (nat \<Rightarrow> game_draw) \<Rightarrow> nat \<Rightarrow> nat \<Rightarrow> ('g, 's, 'w) trainer
     \<Rightarrow> error + (('g, 's, 'w) trainer \<times> flow)" where
  "timestep Y draws batch_size' i run =
     (let game1 = game_render Y (game run);
          time_step' = time_step run + 1;
          d = draws time_step'
      in if update_rate (dqn run) = 0 then Inl ZeroDivisionError
         else
           let dqn1 = (if time_step' mod update_rate (dqn run) = 0
                       then update_target_network (dqn run) else dqn run)
           in case epsilon_greedy Y dqn1 (cur_state run) (uniform_draw d) (randint_draw d) of
                Inl e \<Rightarrow> Inl e
              | Inr action \<Rightarrow>
                  let ((frame, reward, done), game2) = game_step Y game1 action;
                      next_state = preprocess_state Y frame;
                      dqn2 = store_transistion dqn1 (cur_state run) action reward next_state done;
                      run1 = run\<lparr> game := game2, time_step := time_step', dqn := dqn2,
                                  done_flag := done, cur_state := next_state,
                                  Return := Return run + reward \<rparr>
                  in if done then Inr (done_block i run1)
                     else if batch_size' < length (items (replay_buffer dqn2))
                     then (case DQN_train Y dqn2 batch_size' (sample_positions d) of
                             Inl e \<Rightarrow> Inl e
                           | Inr dqn3 \<Rightarrow> Inr (run1\<lparr> dqn := dqn3 \<rparr>, Next))
                     else Inr (run1, Next))"

text \<open>\<open>for t in range(num_timesteps)\<close>, with \<open>n\<close> passes left.\<close>

fun timestep_loop ::
  "('g, 'f, 's, 'w) game_externals \<Rightarrow> (nat \<Rightarrow> game_draw) \<Rightarrow> nat \<Rightarrow> nat \<Rightarrow> nat \<Rightarrow> ('g, 's, 'w) trainer
     \<Rightarrow> error + ('g, 's, 'w) trainer" where
  "timestep_loop Y draws batch_size' i 0 run = Inr run"
| "timestep_loop Y draws batch_size' i (Suc n) run =
     (case timestep Y draws batch_size' i run of
        Inl e \<Rightarrow> Inl e
      | Inr (run', Break) \<Rightarrow> Inr run'
      | Inr (run', Next) \<Rightarrow> timestep_loop Y draws batch_size' i n run')"

text \<open>\<open>for i in range(num_episodes)\<close>, at episode \<open>i\<close> with \<open>n\<close> episodes left.\<close>

fun episodes_loop ::
  "('g, 'f, 's, 'w) game_externals \<Rightarrow> (nat \<Rightarrow> game_draw) \<Rightarrow> nat \<Rightarrow> nat \<Rightarrow> nat \<Rightarrow> nat
     \<Rightarrow> ('g, 's, 'w) trainer \<Rightarrow> error + ('g, 's, 'w) trainer" where
  "episodes_loop Y draws batch_size' num_timesteps i 0 run = Inr run"
| "episodes_loop Y draws batch_size' num_timesteps i (Suc n) run =
     (let (frame, game1) = game_reset Y (game run);
          run0 = run\<lparr> Return := 0, game := game1, cur_state := preprocess_state Y frame \<rparr>
      in case timestep_loop Y draws batch_size' i num_timesteps run0 of
           Inl e \<Rightarrow> Inl e
         | Inr run1 \<Rightarrow> episodes_loop Y draws batch_size' num_timesteps (Suc i) n run1)"

text \<open>
  The training cell: \<open>done = False\<close>, \<open>time_step = 0\<close>, \<open>episode_rewards = []\<close>, then
  the loop over the episodes. \<open>Return\<close> and \<open>state\<close> are assigned at the start of the
  first episode; \<open>s0\<close> stands for the not yet bound \<open>state\<close>.
\<close>

definition trainer_init :: "'g \<Rightarrow> ('s, 'w) DQN \<Rightarrow> 's \<Rightarrow> ('g, 's, 'w) trainer" where
  "trainer_init game0 dqn0 s0 =
     \<lparr> game = game0, dqn = dqn0, done_flag = False, time_step = 0, episode_rewards = [],
       Return = 0, cur_state = s0, stdout = [] \<rparr>"

definition run_trainer ::
  "('g, 'f, 's, 'w) game_externals \<Rightarrow> (nat \<Rightarrow> game_draw) \<Rightarrow> nat \<Rightarrow> nat \<Rightarrow> nat
     \<Rightarrow> 'g \<Rightarrow> ('s, 'w) DQN \<Rightarrow> 's \<Rightarrow> error + ('g, 's, 'w) trainer" where
  "run_trainer Y draws batch_size' num_timesteps num_episodes game0 dqn0 s0 =
     episodes_loop Y draws batch_size' num_timesteps 0 num_episodes (trainer_init game0 dqn0 s0)"



text \<open>The noise object after one call per draw of a list of draws.\<close>

definition noise_after :: "OUActionNoise \<Rightarrow> step_draw list \<Rightarrow> OUActionNoise" where
  "noise_after n ds = foldl (\<lambda>n d. snd (OUActionNoise_call n (normal_draw d))) n ds"

section \<open>Concrete instances\<close>

text \<open>
  A small world for the continuous variant, on which the definitions can be run: the
  environment's state counts the steps of the episode and every episode is truncated
  after its second step; the actor always proposes 1.99; a gradient step leaves the
  weights as they are.
\<close>

definition example_externals :: "(nat, unit) externals" where
  "example_externals =
     \<lparr> actor_net = (\<lambda>w s. 199 / 100),
       critic_net = (\<lambda>w s a. 1),
       apply_gradients = (\<lambda>opt loss w. (opt, w)),
       env_reset = (\<lambda>e. ([1, 0, 0], 0)),
       env_step = (\<lambda>e a. (([0, 1, 0], - 1, False, 1 \<le> e), Suc e)) \<rparr>"

text \<open>
  The draws of two time steps: the noise draws 1 and 0, and batches that repeat the
  index of the transition just recorded.
\<close>

definition example_steps :: "step_draw list" where
  "example_steps =
     [\<lparr> normal_draw = [1], choice_indices = replicate 64 0 \<rparr>,
      \<lparr> normal_draw = [0], choice_indices = replicate 64 1 \<rparr>]"

text \<open>
  A small world for the discrete variant: frames are numbers, the game ends at its
  third step, the network predicts the same two Q-values everywhere and \<open>fit\<close>
  leaves it unchanged.
\<close>

definition example_game :: "(nat, nat, nat, unit) game_externals" where
  "example_game =
     \<lparr> predict = (\<lambda>w s. [1, 2]),
       fit = (\<lambda>w s q. w),
       preprocess_state = (\<lambda>f. f),
       game_reset = (\<lambda>g. (0, 0)),
       game_step = (\<lambda>g a. ((Suc g, 1, 2 \<le> g), Suc g)),
       game_render = (\<lambda>g. g) \<rparr>"

definition example_draws :: "nat \<Rightarrow> game_draw" where
  "example_draws t = \<lparr> uniform_draw = 0, randint_draw = 1, sample_positions = [0] \<rparr>"

section \<open>The ring invariant\<close>














section \<open>The exploration noise and the policy\<close>

lemma OU_call_nth:
  assumes "length (x_prev n) = length (mean n)" "length (std_dev n) = length (mean n)"
    "length z = length (mean n)" "i < length (mean n)"
  shows "fst (OUActionNoise_call n z) ! i =
      x_prev n ! i + theta n * (mean n ! i - x_prev n ! i) * dt n
        + std_dev n ! i * sqrt (dt n) * z ! i"
  using assms
  by (simp add: OUActionNoise_call_def Let_def vadd_def vsub_def vmul_def smul_def vscale_def)

lemma OU_call_length:
  assumes "length (x_prev n) = length (mean n)" "length (std_dev n) = length (mean n)"
    "length z = length (mean n)"
  shows "length (fst (OUActionNoise_call n z)) = length (mean n)"
  using assms
  by (simp add: OUActionNoise_call_def Let_def vadd_def vsub_def vmul_def smul_def vscale_def)

lemma OU_call_state:
  "snd (OUActionNoise_call n z) = n\<lparr> x_prev := fst (OUActionNoise_call n z) \<rparr>"
  by (simp add: OUActionNoise_call_def Let_def)

text \<open>
  Claim C9. With \<open>x_prev\<close>, \<open>std_dev\<close> and the normal draw \<open>z\<close> of the shape of \<open>mean\<close>,
  a call of the noise object returns, component by component,
  \<open>x_prev + theta * (mean - x_prev) * dt + std_dev * sqrt dt * z\<close>, an array of the shape
  of \<open>mean\<close>; the object afterwards differs only in \<open>x_prev\<close>, which is the returned
  sample; and the next call (with draw \<open>z'\<close>) computes the same formula from that
  sample, so consecutive samples are linked through \<open>x_prev\<close>.
\<close>

theorem ou_sample:
  assumes "length (x_prev n) = length (mean n)" "length (std_dev n) = length (mean n)"
    "length z = length (mean n)" "length z' = length (mean n)"
  shows "length (fst (OUActionNoise_call n z)) = length (mean n)
    \<and> (\<forall>i<length (mean n). fst (OUActionNoise_call n z) ! i =
          x_prev n ! i + theta n * (mean n ! i - x_prev n ! i) * dt n
            + std_dev n ! i * sqrt (dt n) * z ! i)
    \<and> snd (OUActionNoise_call n z) = n\<lparr> x_prev := fst (OUActionNoise_call n z) \<rparr>
    \<and> (\<forall>i<length (mean n). fst (OUActionNoise_call (snd (OUActionNoise_call n z)) z') ! i =
          fst (OUActionNoise_call n z) ! i
            + theta n * (mean n ! i - fst (OUActionNoise_call n z) ! i) * dt n
            + std_dev n ! i * sqrt (dt n) * z' ! i)"
proof -
  let ?x = "fst (OUActionNoise_call n z)"
  let ?n' = "n\<lparr> x_prev := ?x \<rparr>"
  have len: "length ?x = length (mean n)"
    using assms(1-3) by (rule OU_call_length)
  have first: "\<forall>i<length (mean n). ?x ! i =
          x_prev n ! i + theta n * (mean n ! i - x_prev n ! i) * dt n
            + std_dev n ! i * sqrt (dt n) * z ! i"
    using OU_call_nth [OF assms(1-3)] by blast
  have st: "snd (OUActionNoise_call n z) = ?n'"
    by (rule OU_call_state)
  have "fst (OUActionNoise_call ?n' z') ! i =
          x_prev ?n' ! i + theta ?n' * (mean ?n' ! i - x_prev ?n' ! i) * dt ?n'
            + std_dev ?n' ! i * sqrt (dt ?n') * z' ! i" if "i < length (mean n)" for i
    using OU_call_nth [where n = ?n' and z = z' and i = i] len assms that by simp
  then have second: "\<forall>i<length (mean n). fst (OUActionNoise_call (snd (OUActionNoise_call n z)) z') ! i =
          ?x ! i + theta n * (mean n ! i - ?x ! i) * dt n + std_dev n ! i * sqrt (dt n) * z' ! i"
    by (simp add: st)
  show ?thesis
    by (intro conjI len first st second)
qed

lemma sqrt_hundredth: "sqrt (1 / 100) = 1 / 10"
  by (rule real_sqrt_unique) (simp_all add: power2_eq_square)

lemma ou_noise_init_eq:
  "ou_noise_init = \<lparr> theta = 15 / 100, mean = [0], std_dev = [2 / 10], dt = 1 / 100,
       x_initial = None, x_prev = [0] \<rparr>"
  by (simp add: ou_noise_init_def OUActionNoise_init_def OUActionNoise_reset_def zeros_like_def smul_def)

text \<open>
  The notebook's noise object (mean 0, std_dev 0.2, theta 0.15, dt 0.01): with the draw 1
  the first sample is 0.02, and with the draw 0 the second is 0.02 - 0.15 * 0.02 * 0.01.
\<close>

theorem ou_sample_witness:
  "fst (OUActionNoise_call ou_noise_init [1]) = [1 / 50]
   \<and> x_prev (snd (OUActionNoise_call ou_noise_init [1])) = [1 / 50]
   \<and> fst (OUActionNoise_call (snd (OUActionNoise_call ou_noise_init [1])) [0]) = [1997 / 100000]"
proof -
  let ?n = ou_noise_init
  have h: "length (x_prev ?n) = length (mean ?n)" "length (std_dev ?n) = length (mean ?n)"
    "length [1::real] = length (mean ?n)" "length [0::real] = length (mean ?n)"
    by (simp_all add: ou_noise_init_eq)
  note th = ou_sample [OF h]
  note A = th [THEN conjunct1]
  note B = th [THEN conjunct2, THEN conjunct1, rule_format, of 0]
  note C = th [THEN conjunct2, THEN conjunct2, THEN conjunct1]
  note D = th [THEN conjunct2, THEN conjunct2, THEN conjunct2, rule_format, of 0]
  have l1: "length (fst (OUActionNoise_call ?n [1])) = 1"
    using A by (simp add: ou_noise_init_eq)
  have "fst (OUActionNoise_call ?n [1]) ! 0 = 1 / 50"
    using B by (simp add: ou_noise_init_eq sqrt_hundredth)
  then have x1: "fst (OUActionNoise_call ?n [1]) = [1 / 50]"
    using l1 by (cases "fst (OUActionNoise_call ?n [1])") simp_all
  have st: "x_prev (snd (OUActionNoise_call ?n [1])) = [1 / 50]"
    by (simp add: C x1)
  have l2: "length (fst (OUActionNoise_call (snd (OUActionNoise_call ?n [1])) [0])) = 1"
    by (simp add: OUActionNoise_call_def Let_def ou_noise_init_eq vadd_def vsub_def vmul_def smul_def vscale_def)
  have "fst (OUActionNoise_call (snd (OUActionNoise_call ?n [1])) [0]) ! 0
      = 1 / 50 + 15 / 100 * (0 - 1 / 50) * (1 / 100) + 2 / 10 * sqrt (1 / 100) * 0"
    using D unfolding x1 by (simp add: ou_noise_init_eq)
  then have "fst (OUActionNoise_call (snd (OUActionNoise_call ?n [1])) [0]) ! 0 = 1997 / 100000"
    by simp
  then have x2: "fst (OUActionNoise_call (snd (OUActionNoise_call ?n [1])) [0]) = [1997 / 100000]"
    using l2 by (cases "fst (OUActionNoise_call (snd (OUActionNoise_call ?n [1])) [0])") simp_all
  show ?thesis by (intro conjI x1 st x2)
qed

lemma np_clip_bounds:
  assumes "lo \<le> hi"
  shows "lo \<le> np_clip a lo hi \<and> np_clip a lo hi \<le> hi"
  using assms by (simp add: np_clip_def)

text \<open>
  Claim C7. For action bounds \<open>lower \<le> upper\<close>, every state, every actor and every
  noise draw: the action the policy returns is the clipping of (actor output + noise
  sample), so the clipping comes after the noise is added, the noise object advances by
  exactly one call, and every component of the action lies in \<open>[lower, upper]\<close>.
\<close>

theorem policy_clipped:
  assumes "lower \<le> upper"
  shows "fst (policy X lower upper w s n z)
           = map (\<lambda>x. np_clip (actor_net X w s + x) lower upper) (fst (OUActionNoise_call n z))
       \<and> snd (policy X lower upper w s n z) = snd (OUActionNoise_call n z)
       \<and> (\<forall>a\<in>set (fst (policy X lower upper w s n z)). lower \<le> a \<and> a \<le> upper)"
proof -
  have p: "fst (policy X lower upper w s n z)
           = map (\<lambda>x. np_clip (actor_net X w s + x) lower upper) (fst (OUActionNoise_call n z))"
    by (simp add: policy_def Let_def split: prod.splits)
  have q: "snd (policy X lower upper w s n z) = snd (OUActionNoise_call n z)"
    by (simp add: policy_def Let_def split: prod.splits)
  have r: "\<forall>a\<in>set (fst (policy X lower upper w s n z)). lower \<le> a \<and> a \<le> upper"
    unfolding p using np_clip_bounds [OF assms] by auto
  show ?thesis by (intro conjI p q r)
qed

text \<open>
  With the pendulum's bounds -2 and 2 and an actor output of 1.99: the noise sample 0.02
  gives 2.01, clipped to 2; the noise sample -8 gives -6.01, clipped to -2.
\<close>

theorem policy_clipped_witness:
  "(- 2 :: real) \<le> 2
   \<and> fst (policy example_externals (- 2) 2 [] [1, 0, 0] ou_noise_init [1]) = [2]
   \<and> fst (policy example_externals (- 2) 2 [] [1, 0, 0] ou_noise_init [- 400]) = [- 2]"
proof -
  have h: "(- 2 :: real) \<le> 2" by simp
  have n1: "fst (OUActionNoise_call ou_noise_init [1]) = [1 / 50]"
    by (simp add: OUActionNoise_call_def Let_def ou_noise_init_eq vadd_def vsub_def vmul_def
        smul_def vscale_def sqrt_hundredth)
  have n2: "fst (OUActionNoise_call ou_noise_init [- 400]) = [- 8]"
    by (simp add: OUActionNoise_call_def Let_def ou_noise_init_eq vadd_def vsub_def vmul_def
        smul_def vscale_def sqrt_hundredth)
  have a: "fst (policy example_externals (- 2) 2 [] [1, 0, 0] ou_noise_init [1]) = [2]"
    using policy_clipped [OF h, where X = example_externals and w = "[]" and s = "[1, 0, 0]"
        and n = ou_noise_init and z = "[1]"]
    by (simp add: n1 example_externals_def np_clip_def)
  have b: "fst (policy example_externals (- 2) 2 [] [1, 0, 0] ou_noise_init [- 400]) = [- 2]"
    using policy_clipped [OF h, where X = example_externals and w = "[]" and s = "[1, 0, 0]"
        and n = ou_noise_init and z = "[- 400]"]
    by (simp add: n2 example_externals_def np_clip_def)
  show ?thesis using h a b by simp
qed

section \<open>The soft target update\<close>









section \<open>The bootstrap target of the discrete variant\<close>

lemma target_Q_eq:
  assumes "d \<or> predict Y (target_network self) s' \<noteq> []"
  shows "target_Q Y self r s' d
       = Inr (if d then r else r + gamma self * Max (set (predict Y (target_network self) s')))"
  using assms by (auto simp: target_Q_def Let_def)

lemma fit_target_Inr:
  assumes "fit_target Y self (s, a, r, s', d) = Inr q"
  shows "(d \<or> predict Y (target_network self) s' \<noteq> [])
       \<and> a < length (predict Y (main_network self) s)
       \<and> q = (predict Y (main_network self) s)
               [a := if d then r else r + gamma self * Max (set (predict Y (target_network self) s'))]"
  using assms
  by (auto simp: fit_target_def target_Q_def Let_def split: if_splits sum.splits)

lemma train_sample_Inr:
  assumes "train_sample Y self t = Inr self'"
  shows "\<exists>q. fit_target Y self t = Inr q
       \<and> self' = self\<lparr> main_network := fit Y (main_network self) (fst t) q \<rparr>"
  using assms by (auto simp: train_sample_def split: sum.splits)

lemma train_loop_append:
  "train_loop Y self (xs @ ys) =
     (case train_loop Y self xs of Inl e \<Rightarrow> Inl e | Inr mid \<Rightarrow> train_loop Y mid ys)"
  by (induction xs arbitrary: self) (auto split: sum.splits)

lemma train_loop_frame:
  assumes "train_loop Y self xs = Inr mid"
  shows "target_network mid = target_network self \<and> gamma mid = gamma self
       \<and> replay_buffer mid = replay_buffer self"
  using assms
proof (induction xs arbitrary: self)
  case Nil
  then show ?case by simp
next
  case (Cons x xs)
  from Cons.prems obtain self' where s': "train_sample Y self x = Inr self'"
    and rest: "train_loop Y self' xs = Inr mid"
    by (auto split: sum.splits)
  from train_sample_Inr [OF s'] have "target_network self' = target_network self"
    "gamma self' = gamma self" "replay_buffer self' = replay_buffer self"
    by auto
  then show ?case using Cons.IH [OF rest] by simp
qed

text \<open>
  Claim C5. A terminal transition's bootstrap target is exactly its reward, whatever
  \<open>gamma\<close> and the target network are. When \<open>DQN.train\<close> runs through the minibatch
  it sampled, then for its \<open>k\<close>-th transition \<open>(s, a, r, s', d)\<close>, with \<open>mid\<close> the agent
  after the first \<open>k\<close> fits (same \<open>gamma\<close> and target network as at the start): the
  bootstrap target is \<open>r\<close> if \<open>d\<close> and \<open>r + gamma * max (target_network.predict s')\<close>
  otherwise, and the row the main network is fitted on is its own prediction for \<open>s\<close>
  with only the entry of the taken action \<open>a\<close> overwritten by that target.
\<close>

theorem dqn_bootstrap_target:
  assumes sample: "DQN_minibatch self n pos = Inr minibatch"
    and train: "DQN_train Y self n pos = Inr final"
    and k: "k < length minibatch" and t: "minibatch ! k = (s, a, r, s', d)"
  shows "target_Q Y self r s' True = Inr r
    \<and> (\<exists>mid. train_loop Y self (take k minibatch) = Inr mid
          \<and> target_network mid = target_network self \<and> gamma mid = gamma self
          \<and> target_Q Y mid r s' d
              = Inr (if d then r else r + gamma self * Max (set (predict Y (target_network self) s')))
          \<and> a < length (predict Y (main_network mid) s)
          \<and> fit_target Y mid (minibatch ! k)
              = Inr ((predict Y (main_network mid) s)
                  [a := if d then r else r + gamma self * Max (set (predict Y (target_network self) s'))])
          \<and> train_sample Y mid (minibatch ! k)
              = Inr (mid\<lparr> main_network := fit Y (main_network mid) s
                  ((predict Y (main_network mid) s)
                  [a := if d then r else r + gamma self * Max (set (predict Y (target_network self) s'))]) \<rparr>))"
proof -
  have run: "train_loop Y self minibatch = Inr final"
    using sample train by (simp add: DQN_train_def)
  have terminal: "target_Q Y self r s' True = Inr r"
    by (simp add: target_Q_def)
  have split: "minibatch = take k minibatch @ minibatch ! k # drop (Suc k) minibatch"
    using k by (simp add: id_take_nth_drop)
  have "train_loop Y self (take k minibatch @ minibatch ! k # drop (Suc k) minibatch) = Inr final"
    using run split by simp
  then obtain mid where mid: "train_loop Y self (take k minibatch) = Inr mid"
    and rest: "train_loop Y mid (minibatch ! k # drop (Suc k) minibatch) = Inr final"
    unfolding train_loop_append by (auto split: sum.splits)
  from rest obtain mid' where samp: "train_sample Y mid (minibatch ! k) = Inr mid'"
    by (auto split: sum.splits)
  from train_sample_Inr [OF samp] obtain q where q: "fit_target Y mid (minibatch ! k) = Inr q"
    and mid': "mid' = mid\<lparr> main_network := fit Y (main_network mid) (fst (minibatch ! k)) q \<rparr>"
    by blast
  note fr = train_loop_frame [OF mid]
  let ?tq = "if d then r else r + gamma self * Max (set (predict Y (target_network self) s'))"
  from fit_target_Inr [OF q [unfolded t]]
  have ok: "d \<or> predict Y (target_network mid) s' \<noteq> []"
    and a: "a < length (predict Y (main_network mid) s)"
    and qv: "q = (predict Y (main_network mid) s)[a := ?tq]"
    using fr by simp_all
  have tq: "target_Q Y mid r s' d = Inr ?tq"
    using target_Q_eq [OF ok] fr by simp
  have ft: "fit_target Y mid (minibatch ! k) = Inr ((predict Y (main_network mid) s)[a := ?tq])"
    using q qv by simp
  have ts: "train_sample Y mid (minibatch ! k)
      = Inr (mid\<lparr> main_network := fit Y (main_network mid) s ((predict Y (main_network mid) s)[a := ?tq]) \<rparr>)"
    using samp mid' qv t by simp
  have "\<exists>mid. train_loop Y self (take k minibatch) = Inr mid
          \<and> target_network mid = target_network self \<and> gamma mid = gamma self
          \<and> target_Q Y mid r s' d = Inr ?tq
          \<and> a < length (predict Y (main_network mid) s)
          \<and> fit_target Y mid (minibatch ! k) = Inr ((predict Y (main_network mid) s)[a := ?tq])
          \<and> train_sample Y mid (minibatch ! k)
              = Inr (mid\<lparr> main_network := fit Y (main_network mid) s
                  ((predict Y (main_network mid) s)[a := ?tq]) \<rparr>)"
    by (rule exI [of _ mid]) (intro conjI mid fr [THEN conjunct1] fr [THEN conjunct2, THEN conjunct1] tq a ft ts)
  with terminal show ?thesis by (rule conjI)
qed

text \<open>
  A minibatch of a terminal transition with reward 5 and a non-terminal one with reward 1,
  under a network that predicts \<open>[1, 2]\<close> and \<open>gamma = 0.9\<close>: the fitting rows are
  \<open>[5, 2]\<close> and \<open>[1, 1 + 0.9 * 2]\<close>.
\<close>

theorem dqn_bootstrap_target_witness:
  "DQN_train example_game
      (store_all (DQN_init (88, 80, 1) 2 ()) [(1, 0, 5, 2, True), (0, 1, 1, 1, False)]) 2 [0, 1]
     = Inr (store_all (DQN_init (88, 80, 1) 2 ()) [(1, 0, 5, 2, True), (0, 1, 1, 1, False)])
   \<and> fit_target example_game
        (store_all (DQN_init (88, 80, 1) 2 ()) [(1, 0, 5, 2, True), (0, 1, 1, 1, False)])
        (1, 0, 5, 2, True) = Inr [5, 2]
   \<and> fit_target example_game
        (store_all (DQN_init (88, 80, 1) 2 ()) [(1, 0, 5, 2, True), (0, 1, 1, 1, False)])
        (0, 1, 1, 1, False) = Inr [1, 14 / 5]"
proof -
  let ?mb = "[(1, 0, 5, 2, True), (0, 1, 1, 1, False)] :: nat transition list"
  let ?self = "store_all (DQN_init (88, 80, 1) 2 ()) ?mb :: (nat, unit) DQN"
  have self: "?self = (DQN_init (88, 80, 1) 2 ())\<lparr> replay_buffer := \<lparr> items = ?mb, maxlen = 5000 \<rparr> \<rparr>"
    by (simp add: store_transistion_def deque_append_def DQN_init_def deque_init_def)
  have sample: "DQN_minibatch ?self 2 [0, 1] = Inr ?mb"
    unfolding self by (simp add: DQN_minibatch_def random_sample_def)
  have one_a: "train_sample example_game ?self (1, 0, 5, 2, True) = Inr ?self"
    unfolding self
    by (simp add: train_sample_def fit_target_def target_Q_def example_game_def DQN_init_def Let_def)
  have one_b: "train_sample example_game ?self (0, 1, 1, 1, False) = Inr ?self"
    unfolding self
    by (simp add: train_sample_def fit_target_def target_Q_def example_game_def DQN_init_def Let_def)
  have run: "train_loop example_game ?self ?mb = Inr ?self"
    by (simp only: train_loop.simps one_a one_b sum.case)
  have train: "DQN_train example_game ?self 2 [0, 1] = Inr ?self"
    by (simp only: DQN_train_def sample sum.case run)
  have k0: "(0::nat) < length ?mb" and k1: "(1::nat) < length ?mb" by simp_all
  have t0: "?mb ! 0 = (1, 0, 5, 2, True)" and t1: "?mb ! 1 = (0, 1, 1, 1, False)" by simp_all
  have g: "gamma ?self = 9 / 10"
    unfolding self by (simp add: DQN_init_def)
  from dqn_bootstrap_target [OF sample train k0 t0]
  obtain mid0 where m0: "train_loop example_game ?self (take 0 ?mb) = Inr mid0"
    and f0: "fit_target example_game mid0 (?mb ! 0)
        = Inr ((predict example_game (main_network mid0) 1)
            [0 := if True then 5 else 5 + gamma ?self * Max (set (predict example_game (target_network ?self) 2))])"
    by blast
  from m0 have "mid0 = ?self" by simp
  then have a: "fit_target example_game ?self (1, 0, 5, 2, True) = Inr [5, 2]"
    using f0 by (simp add: example_game_def)
  from dqn_bootstrap_target [OF sample train k1 t1]
  obtain mid1 where m1: "train_loop example_game ?self (take 1 ?mb) = Inr mid1"
    and f1: "fit_target example_game mid1 (?mb ! 1)
        = Inr ((predict example_game (main_network mid1) 0)
            [1 := if False then 1 else 1 + gamma ?self * Max (set (predict example_game (target_network ?self) 1))])"
    by blast
  have "take 1 ?mb = [(1, 0, 5, 2, True)]" by simp
  with m1 have "mid1 = ?self" by (simp only: train_loop.simps one_a sum.case sum.inject)
  then have b: "fit_target example_game ?self (0, 1, 1, 1, False) = Inr [1, 14 / 5]"
    using f1 [unfolded g] by (simp add: example_game_def)
  show ?thesis by (intro conjI train a b)
qed

section \<open>The bootstrap target of the continuous variant\<close>









section \<open>The reward list of the discrete training loop\<close>

lemma done_block_eq:
  "done_block i run = (run\<lparr> stdout := stdout run @ [(i, Return run)] \<rparr>, Break)"
  by (simp add: done_block_def seq_stmt_def print_stmt_def break_stmt_def)

lemma timestep_rewards:
  assumes "timestep Y draws b i run = Inr (run', f)"
  shows "episode_rewards run' = episode_rewards run"
  using assms
  by (auto simp: timestep_def Let_def done_block_eq split: if_splits sum.splits prod.splits)

lemma timestep_loop_rewards:
  assumes "timestep_loop Y draws b i n run = Inr run'"
  shows "episode_rewards run' = episode_rewards run"
  using assms
proof (induction n arbitrary: run)
  case 0
  then show ?case by simp
next
  case (Suc n)
  from Suc.prems obtain mid f where step: "timestep Y draws b i run = Inr (mid, f)"
    and rest: "(f = Break \<and> run' = mid) \<or> (f = Next \<and> timestep_loop Y draws b i n mid = Inr run')"
    by (auto split: sum.splits prod.splits flow.splits)
  have "episode_rewards mid = episode_rewards run"
    using step by (rule timestep_rewards)
  then show ?case using rest Suc.IH by auto
qed

lemma episodes_loop_rewards:
  assumes "episodes_loop Y draws b nt i n run = Inr run'"
  shows "episode_rewards run' = episode_rewards run"
  using assms
proof (induction n arbitrary: run i)
  case 0
  then show ?case by simp
next
  case (Suc n)
  obtain frame game1 where r: "game_reset Y (game run) = (frame, game1)"
    by (cases "game_reset Y (game run)")
  let ?run0 = "run\<lparr> Return := 0, game := game1, cur_state := preprocess_state Y frame \<rparr>"
  from Suc.prems r obtain run1 where inner: "timestep_loop Y draws b i nt ?run0 = Inr run1"
    and rest: "episodes_loop Y draws b nt (Suc i) n run1 = Inr run'"
    by (auto simp: Let_def split: sum.splits)
  have "episode_rewards run1 = episode_rewards ?run0"
    using inner by (rule timestep_loop_rewards)
  then show ?case using Suc.IH [OF rest] by simp
qed

text \<open>
  Claim C10. In the block under \<open>if done:\<close> the \<open>break\<close> comes before
  \<open>episode_rewards.append(Return)\<close>: the block prints, leaves the loop and appends
  nothing. So no pass through the body of the time-step loop changes \<open>episode_rewards\<close>,
  and whenever the training cell runs to its end, for any game, network, random draws,
  batch size and numbers of time steps and episodes, \<open>episode_rewards\<close> is still the
  empty list.
\<close>

theorem episode_rewards_stays_empty:
  "done_block i run = (run\<lparr> stdout := stdout run @ [(i, Return run)] \<rparr>, Break)
   \<and> (timestep Y draws b i run = Inr (run', f) \<longrightarrow> episode_rewards run' = episode_rewards run)
   \<and> (run_trainer Y draws b nt ne game0 agent s0 = Inr final \<longrightarrow> episode_rewards final = [])"
proof (intro conjI impI)
  show "done_block i run = (run\<lparr> stdout := stdout run @ [(i, Return run)] \<rparr>, Break)"
    by (rule done_block_eq)
  show "episode_rewards run' = episode_rewards run" if "timestep Y draws b i run = Inr (run', f)"
    using that by (rule timestep_rewards)
  show "episode_rewards final = []" if "run_trainer Y draws b nt ne game0 agent s0 = Inr final"
    using episodes_loop_rewards [OF that [unfolded run_trainer_def]]
    by (simp add: trainer_init_def)
qed

text \<open>
  Two episodes of three steps each in the small game: both returns are printed, six time
  steps have passed, and \<open>episode_rewards\<close> is empty.
\<close>

theorem episode_rewards_stays_empty_witness:
  "\<exists>final. run_trainer example_game example_draws 1 (Suc (Suc (Suc (Suc 0)))) (Suc (Suc 0))
        0 (DQN_init (88, 80, 1) 2 ()) 0 = Inr final
     \<and> episode_rewards final = []
     \<and> stdout final = [(0, 3), (1, 3)]
     \<and> time_step final = 6"
proof -
  let ?run = "run_trainer example_game example_draws 1 (Suc (Suc (Suc (Suc 0)))) (Suc (Suc 0))
        0 (DQN_init (88, 80, 1) 2 ()) 0"
  have "map_sum id (\<lambda>r. (stdout r, time_step r)) ?run = Inr ([(0, 3), (1, 3)], 6)"
    by (simp add: run_trainer_def trainer_init_def timestep_def example_game_def example_draws_def
      DQN_init_def epsilon_greedy_def store_transistion_def deque_append_def deque_init_def
      update_target_network_def done_block_eq DQN_train_def DQN_minibatch_def random_sample_def
      train_sample_def fit_target_def target_Q_def Let_def)
  then obtain final where run: "?run = Inr final"
    and out: "stdout final = [(0, 3), (1, 3)]" "time_step final = 6"
    by (cases ?run) auto
  have "episode_rewards final = []"
    using episode_rewards_stays_empty [THEN conjunct2, THEN conjunct2, rule_format, OF run] .
  then show ?thesis using run out by blast
qed

section \<open>The noise state across episodes\<close>

lemma train_step_noise:
  assumes "train_step X lo hi g tau d st = Inr (st', stop)"
  shows "ou_noise st' = snd (OUActionNoise_call (ou_noise st) (normal_draw d))"
  using assms
  by (auto simp: train_step_def policy_def Let_def split: prod.splits sum.splits if_splits)

lemma episode_loop_noise:
  assumes "episode_loop X lo hi g tau ds st = Some (Inr (st', ds'))"
  shows "\<exists>used. ds = used @ ds' \<and> used \<noteq> [] \<and> ou_noise st' = noise_after (ou_noise st) used"
  using assms
proof (induction ds arbitrary: st)
  case Nil
  then show ?case by simp
next
  case (Cons d ds)
  from Cons.prems obtain mid stop where step: "train_step X lo hi g tau d st = Inr (mid, stop)"
    and rest: "(stop \<and> st' = mid \<and> ds' = ds)
        \<or> (\<not> stop \<and> episode_loop X lo hi g tau ds mid = Some (Inr (st', ds')))"
    by (auto split: sum.splits prod.splits if_splits)
  have n: "ou_noise mid = snd (OUActionNoise_call (ou_noise st) (normal_draw d))"
    using step by (rule train_step_noise)
  from rest show ?case
  proof
    assume "stop \<and> st' = mid \<and> ds' = ds"
    then have "d # ds = [d] @ ds'" "ou_noise st' = noise_after (ou_noise st) [d]"
      using n by (simp_all add: noise_after_def)
    then show ?thesis by blast
  next
    assume "\<not> stop \<and> episode_loop X lo hi g tau ds mid = Some (Inr (st', ds'))"
    then obtain used where u: "ds = used @ ds'" "ou_noise st' = noise_after (ou_noise mid) used"
      using Cons.IH by blast
    then have "d # ds = (d # used) @ ds'" "ou_noise st' = noise_after (ou_noise st) (d # used)"
      using n by (simp_all add: noise_after_def)
    then show ?thesis by blast
  qed
qed

lemma episode_reset_noise: "ou_noise (episode_reset X st) = ou_noise st"
  by (simp add: episode_reset_def split: prod.splits)

lemma episode_end_noise: "ou_noise (episode_end st) = ou_noise st"
  by (simp add: episode_end_def Let_def)

lemma noise_after_append: "noise_after n (xs @ ys) = noise_after (noise_after n xs) ys"
  by (simp add: noise_after_def)

lemma train_noise:
  assumes "train X lo hi g tau k ds st = Some (Inr (st', ds'))"
  shows "\<exists>used. ds = used @ ds' \<and> ou_noise st' = noise_after (ou_noise st) used"
  using assms
proof (induction k arbitrary: ds st)
  case 0
  then have "ds = [] @ ds'" "ou_noise st' = noise_after (ou_noise st) []"
    by (simp_all add: noise_after_def)
  then show ?case by blast
next
  case (Suc k)
  from Suc.prems obtain mid ds1 where
    ep: "episode_loop X lo hi g tau ds (episode_reset X st) = Some (Inr (mid, ds1))"
    and rest: "train X lo hi g tau k ds1 (episode_end mid) = Some (Inr (st', ds'))"
    by (auto split: option.splits sum.splits prod.splits)
  from episode_loop_noise [OF ep] obtain u1 where
    u1: "ds = u1 @ ds1" "ou_noise mid = noise_after (ou_noise st) u1"
    by (auto simp: episode_reset_noise)
  from Suc.IH [OF rest] obtain u2 where
    u2: "ds1 = u2 @ ds'" "ou_noise st' = noise_after (ou_noise mid) u2"
    by (auto simp: episode_end_noise)
  have "ds = (u1 @ u2) @ ds'" "ou_noise st' = noise_after (ou_noise st) (u1 @ u2)"
    using u1 u2 by (simp_all add: noise_after_append)
  then show ?case by blast
qed

text \<open>
  Claim C3, as the notebook has it. \<open>reset\<close> sets \<open>x_prev\<close> to the configured initial
  value, or to zeros of the shape of \<open>mean\<close> when none is configured, and the
  constructor calls it. The training loop never does: the statements at the start of an
  episode (\<open>env.reset()\<close>, \<open>episodic_reward = 0\<close>) and at its end leave the noise object
  as it is, a training step advances it by exactly one call, and so after any number of
  episodes the noise object is the initial one advanced by one call per time step of all
  the episodes together: the state carries over from each episode to the next.
\<close>

theorem noise_reset_only_at_construction:
  "x_prev (OUActionNoise_reset n) = (case x_initial n of Some x0 \<Rightarrow> x0 | None \<Rightarrow> zeros_like (mean n))
   \<and> x_prev (OUActionNoise_init m sd th d0 xi) = (case xi of Some x0 \<Rightarrow> x0 | None \<Rightarrow> zeros_like m)
   \<and> ou_noise (episode_reset X st) = ou_noise st
   \<and> ou_noise (episode_end st) = ou_noise st
   \<and> (train_step X lo hi g tau d st = Inr (st1, stop)
        \<longrightarrow> ou_noise st1 = snd (OUActionNoise_call (ou_noise st) (normal_draw d)))
   \<and> (train X lo hi g tau k ds st = Some (Inr (st', ds'))
        \<longrightarrow> (\<exists>used. ds = used @ ds' \<and> ou_noise st' = noise_after (ou_noise st) used))"
proof (intro conjI impI)
  show "x_prev (OUActionNoise_reset n) = (case x_initial n of Some x0 \<Rightarrow> x0 | None \<Rightarrow> zeros_like (mean n))"
    by (simp add: OUActionNoise_reset_def split: option.splits)
  show "x_prev (OUActionNoise_init m sd th d0 xi) = (case xi of Some x0 \<Rightarrow> x0 | None \<Rightarrow> zeros_like m)"
    by (simp add: OUActionNoise_init_def OUActionNoise_reset_def split: option.splits)
  show "ou_noise (episode_reset X st) = ou_noise st"
    by (rule episode_reset_noise)
  show "ou_noise (episode_end st) = ou_noise st"
    by (rule episode_end_noise)
  show "ou_noise st1 = snd (OUActionNoise_call (ou_noise st) (normal_draw d))"
    if "train_step X lo hi g tau d st = Inr (st1, stop)"
    using that by (rule train_step_noise)
  show "\<exists>used. ds = used @ ds' \<and> ou_noise st' = noise_after (ou_noise st) used"
    if "train X lo hi g tau k ds st = Some (Inr (st', ds'))"
    using that by (rule train_noise)
qed

text \<open>
  Claim C3 as stated (\<open>x_prev\<close> is back at its initial value when an episode starts)
  fails on the notebook's own noise object and buffer: after a first episode of two steps
  with the noise draws 1 and 0, the second episode starts (after \<open>env.reset()\<close> and
  \<open>episodic_reward = 0\<close>, before the first action is selected) with
  \<open>x_prev = [0.01997]\<close>, the last sample of the first episode, not with zeros.
\<close>

theorem no_reset_counterexample:
  "(case train example_externals (- 2) 2 (99 / 100) (5 / 1000) (Suc 0) example_steps
           (ddpg_init 3 1 0 [] [] () ()) of
      Some (Inr (st, ds)) \<Rightarrow> x_prev (ou_noise (episode_reset example_externals st))
    | _ \<Rightarrow> []) = [1997 / 100000]"
  by (simp add: train_step_def example_steps_def episode_reset_def episode_end_def ddpg_init_def
      example_externals_def policy_def OUActionNoise_call_def ou_noise_init_eq sqrt_hundredth
      vadd_def vsub_def vmul_def smul_def vscale_def np_clip_def Buffer_record_def Buffer_init_def
      Buffer_learn_def learn_batch_def np_random_choice_def take_rows_def update_target_def
      Buffer_update_def Let_def split: prod.splits)

text \<open>
  Two episodes of two steps each: the run completes, uses all four draws, and the noise
  object at the end is the initial one after four calls.
\<close>

theorem noise_reset_only_at_construction_witness:
  "\<exists>st. train example_externals (- 2) 2 (99 / 100) (5 / 1000) (Suc (Suc 0))
          (example_steps @ example_steps) (ddpg_init 3 1 0 [] [] () ()) = Some (Inr (st, []))
     \<and> ou_noise st = noise_after ou_noise_init (example_steps @ example_steps)
     \<and> length (ep_reward_list st) = 2"
proof -
  let ?run = "train example_externals (- 2) 2 (99 / 100) (5 / 1000) (Suc (Suc 0))
          (example_steps @ example_steps) (ddpg_init 3 1 (0::nat) [] [] () ())"
  have "map_option (map_sum id (\<lambda>(st, ds). (ds, length (ep_reward_list st)))) ?run
      = Some (Inr ([], 2))"
    by (simp add: train_step_def example_steps_def episode_reset_def episode_end_def ddpg_init_def
      example_externals_def policy_def OUActionNoise_call_def ou_noise_init_eq sqrt_hundredth
      vadd_def vsub_def vmul_def smul_def vscale_def np_clip_def Buffer_record_def Buffer_init_def
      Buffer_learn_def learn_batch_def np_random_choice_def take_rows_def update_target_def
      Buffer_update_def Let_def split: prod.splits)
  then obtain st where run: "?run = Some (Inr (st, []))" and l: "length (ep_reward_list st) = 2"
    by (cases ?run) (auto simp: map_sum_def split: sum.splits)
  from noise_reset_only_at_construction
    [THEN conjunct2, THEN conjunct2, THEN conjunct2, THEN conjunct2, THEN conjunct2, rule_format, OF run]
  obtain used where "example_steps @ example_steps = used @ []"
    and "ou_noise st = noise_after (ou_noise (ddpg_init 3 1 (0::nat) [] [] () ())) used"
    by blast
  then have "ou_noise st = noise_after ou_noise_init (example_steps @ example_steps)"
    by (simp add: ddpg_init_def)
  then show ?thesis using run l by blast
qed

section \<open>Sampling a batch\<close>







section \<open>Sampling with too little data\<close>

text \<open>
  Claim C8, for a batch of at least one transition. Continuous variant: when the store
  holds no transition (\<open>min n C = 0\<close>) and \<open>batch_size \<ge> 1\<close>, sampling raises ValueError
  (in \<open>np.random.choice\<close>) for every draw, and so does \<open>learn\<close>. Discrete variant: when
  the batch is larger than the number of stored transitions, which includes every batch
  of at least one from an empty store, \<open>random.sample\<close> raises ValueError and so does
  \<open>train\<close>.
\<close>

theorem insufficient_data:
  "(record_range b = 0 \<and> 0 < batch_size b
      \<longrightarrow> learn_batch b draw = Inl ValueError \<and> Buffer_learn X g b nn draw = Inl ValueError)
   \<and> (length (items (replay_buffer self)) < k
      \<longrightarrow> DQN_minibatch self k pos = Inl ValueError \<and> DQN_train Y self k pos = Inl ValueError)"
proof (intro conjI impI)
  assume a: "record_range b = 0 \<and> 0 < batch_size b"
  then have "np_random_choice (min (buffer_counter b) (buffer_capacity b)) (batch_size b) draw
      = Inl ValueError"
    by (simp add: np_random_choice_def record_range_def)
  then show l: "learn_batch b draw = Inl ValueError"
    by (simp add: learn_batch_def Let_def)
  then show "Buffer_learn X g b nn draw = Inl ValueError"
    by (simp add: Buffer_learn_def)
next
  assume "length (items (replay_buffer self)) < k"
  then show m: "DQN_minibatch self k pos = Inl ValueError"
    by (simp add: DQN_minibatch_def random_sample_def)
  then show "DQN_train Y self k pos = Inl ValueError"
    by (simp add: DQN_train_def)
qed

text \<open>
  The notebook's buffer \<open>Buffer(50000, 64)\<close> before any record call, and the agent with
  no or two stored transitions and the notebook's batch size 8.
\<close>

theorem insufficient_data_witness:
  "record_range (Buffer_init 3 1 50000 64) = 0
   \<and> learn_batch (Buffer_init 3 1 50000 64) (replicate 64 0) = Inl ValueError
   \<and> Buffer_learn example_externals (99 / 100) (Buffer_init 3 1 50000 64)
        (nets (ddpg_init 3 1 (0::nat) [] [] () ())) (replicate 64 0) = Inl ValueError
   \<and> DQN_train example_game (DQN_init (88, 80, 1) 2 ()) 8 [0, 1, 2, 3, 4, 5, 6, 7] = Inl ValueError
   \<and> DQN_train example_game
        (store_all (DQN_init (88, 80, 1) 2 ()) [(0, 0, 0, 1, False), (1, 0, 1, 2, False)])
        8 [0, 1, 2, 3, 4, 5, 6, 7] = Inl ValueError"
proof -
  let ?b = "Buffer_init 3 1 50000 64"
  let ?empty = "DQN_init (88, 80, 1) 2 () :: (nat, unit) DQN"
  let ?two = "store_all ?empty [(0, 0, 0, 1, False), (1, 0, 1, 2, False)]"
  have r: "record_range ?b = 0" and bs: "0 < batch_size ?b"
    by (simp_all add: record_range_def Buffer_init_def)
  have e: "length (items (replay_buffer ?empty)) < 8"
    by (simp add: DQN_init_def deque_init_def)
  have t: "length (items (replay_buffer ?two)) < 8"
    by (simp add: store_transistion_def deque_append_def DQN_init_def deque_init_def)
  note c = insufficient_data [where b = ?b, THEN conjunct1, rule_format, OF conjI [OF r bs]]
  note d1 = insufficient_data [where self = ?empty and k = 8, THEN conjunct2, rule_format, OF e]
  note d2 = insufficient_data [where self = ?two and k = 8, THEN conjunct2, rule_format, OF t]
  show ?thesis
    using r c d1 d2 by blast
qed

text \<open>
  Claim C8 as stated (sampling from a store with zero transitions always fails) does not
  hold for a batch size of 0: \<open>Buffer(50000, 0)\<close> samples an empty batch from the empty
  store without an error, and \<open>train(0)\<close> on an agent with an empty deque returns
  normally.
\<close>

theorem empty_batch_counterexample:
  "record_range (Buffer_init 3 1 50000 0) = 0
   \<and> learn_batch (Buffer_init 3 1 50000 0) []
       = Inr \<lparr> state_batch = [], action_batch = [], reward_batch = [], next_state_batch = [] \<rparr>
   \<and> DQN_train example_game (DQN_init (88, 80, 1) 2 ()) 0 [] = Inr (DQN_init (88, 80, 1) 2 ())"
  by (simp add: record_range_def Buffer_init_def learn_batch_def np_random_choice_def
      take_rows_def DQN_train_def DQN_minibatch_def random_sample_def)

end
